theory Spec2Isabelle
  imports Complex_Main
begin

section \<open>Python values used by the signal bridge\<close>

text \<open>
  The bridge is Python. Its \<open>str\<close> values are modelled as \<open>string\<close>, one \<open>char\<close> per
  code point, for ASCII text; \<open>int\<close> is Isabelle's unbounded \<open>int\<close>.
  A Python \<open>float\<close> is a finite number, an infinity or NaN. Only its comparisons and its
  truth value are used by the code, so it is represented by the real number it denotes
  (or by one of the three special values), with Python's rules for comparing them.
\<close>

datatype pyfloat = Fin real | PInf | NInf | NaN

text \<open>Python \<open>a <= b\<close> on floats: every comparison with NaN is false.\<close>

fun f_le :: "pyfloat \<Rightarrow> pyfloat \<Rightarrow> bool" where
  "f_le NaN _ = False"
| "f_le _ NaN = False"
| "f_le NInf _ = True"
| "f_le _ PInf = True"
| "f_le (Fin a) (Fin b) = (a \<le> b)"
| "f_le PInf _ = False"
| "f_le _ NInf = False"

text \<open>Python \<open>a >= b\<close> is \<open>b <= a\<close>.\<close>

definition f_ge :: "pyfloat \<Rightarrow> pyfloat \<Rightarrow> bool" where
  "f_ge a b = f_le b a"

text \<open>Truth value of a float: only zero is false (NaN and the infinities are true).\<close>

definition f_truthy :: "pyfloat \<Rightarrow> bool" where
  "f_truthy x = (x \<noteq> Fin 0)"

text \<open>Truth value of an \<open>Optional[float]\<close>: \<open>None\<close> is false.\<close>

definition opt_truthy :: "pyfloat option \<Rightarrow> bool" where
  "opt_truthy x = (case x of None \<Rightarrow> False | Some v \<Rightarrow> f_truthy v)"

text \<open>\<open>str.upper()\<close> on ASCII text: the letters a-z move to A-Z, nothing else changes.\<close>

definition upper_char :: "char \<Rightarrow> char" where
  "upper_char c =
     (case map_of (zip ''abcdefghijklmnopqrstuvwxyz'' ''ABCDEFGHIJKLMNOPQRSTUVWXYZ'') c of
        Some u \<Rightarrow> u
      | None \<Rightarrow> c)"

definition upper :: "string \<Rightarrow> string" where
  "upper s = map upper_char s"

text \<open>
  A naive \<open>datetime\<close> is a point on one time line with microsecond resolution: its
  offset from the epoch in microseconds.
\<close>

datatype datetime = DT (micros: int)

text \<open>\<open>(a - b).total_seconds()\<close>\<close>

definition total_seconds :: "datetime \<Rightarrow> datetime \<Rightarrow> real" where
  "total_seconds a b = real_of_int (micros a - micros b) / 1000000"

text \<open>
  List slices with an integer bound: a negative bound counts from the end, and a
  bound outside the list is clipped. \<open>slice_to xs k\<close> is \<open>xs[:k]\<close>, \<open>slice_from xs k\<close> is
  \<open>xs[k:]\<close>.
\<close>

definition slice_index :: "'a list \<Rightarrow> int \<Rightarrow> nat" where
  "slice_index xs k = (if k < 0 then nat (int (length xs) + k) else nat k)"

definition slice_to :: "'a list \<Rightarrow> int \<Rightarrow> 'a list" where
  "slice_to xs k = take (slice_index xs k) xs"

definition slice_from :: "'a list \<Rightarrow> int \<Rightarrow> 'a list" where
  "slice_from xs k = drop (slice_index xs k) xs"

section \<open>signal_manager.py: TradeSignal\<close>

datatype TradeAction = BUY | SELL | CLOSE | MODIFY

text \<open>
  \<open>TradeAction(value)\<close>: the member with that value; \<open>None\<close> stands for the
  \<open>ValueError\<close> that the call raises for any other string.
\<close>

definition TradeAction_of :: "string \<Rightarrow> TradeAction option" where
  "TradeAction_of v =
     (if v = ''BUY'' then Some BUY
      else if v = ''SELL'' then Some SELL
      else if v = ''CLOSE'' then Some CLOSE
      else if v = ''MODIFY'' then Some MODIFY
      else None)"

record TradeSignal =
  symbol :: string
  action :: string
  broker :: string
  lot_size :: pyfloat
  stop_loss :: "pyfloat option"
  take_profit :: "pyfloat option"
  comment :: string
  timestamp :: "datetime option"
  signal_id :: "string option"

text \<open>
  \<open>TradeSignal.validate\<close>. The checks run in the order of the source; the first one
  that fails returns \<open>(False, message)\<close>, and \<open>(True, None)\<close> is returned when all pass.
  The comparison of the two levels, nested in the source under the test of the action
  and of the truth values of both levels, is the last conjunct of that test: where it is
  false the source goes on to the next check too.
\<close>

definition validate :: "TradeSignal \<Rightarrow> bool \<times> string option" where
  "validate s =
     (if symbol s = [] \<or> length (symbol s) < 3 then (False, Some ''Invalid symbol'')
      else case TradeAction_of (upper (action s)) of
        None \<Rightarrow> (False, Some (''Invalid action: '' @ action s))
      | Some _ \<Rightarrow>
        if f_le (lot_size s) (Fin 0) then (False, Some ''Lot size must be positive'')
        else if stop_loss s \<noteq> None \<and> f_le (the (stop_loss s)) (Fin 0)
          then (False, Some ''Stop loss must be positive'')
        else if take_profit s \<noteq> None \<and> f_le (the (take_profit s)) (Fin 0)
          then (False, Some ''Take profit must be positive'')
        else if upper (action s) = ''BUY'' \<and> opt_truthy (stop_loss s)
                \<and> opt_truthy (take_profit s)
                \<and> f_ge (the (stop_loss s)) (the (take_profit s))
          then (False, Some ''Stop loss must be less than take profit for BUY'')
        else if upper (action s) = ''SELL'' \<and> opt_truthy (stop_loss s)
                \<and> opt_truthy (take_profit s)
                \<and> f_le (the (stop_loss s)) (the (take_profit s))
          then (False, Some ''Stop loss must be greater than take profit for SELL'')
        else (True, None))"

section \<open>signal_manager.py: SignalManager\<close>

record SignalManager =
  queue :: "TradeSignal list"
  history :: "TradeSignal list"
  max_queue_size :: int
  max_history :: int
  processed_signals :: "string option set"

text \<open>\<open>SignalManager.__init__\<close>\<close>

definition init_manager :: "int \<Rightarrow> int \<Rightarrow> SignalManager" where
  "init_manager mq mh =
     \<lparr>queue = [], history = [], max_queue_size = mq, max_history = mh,
      processed_signals = {}\<rparr>"

text \<open>
  \<open>SignalManager.add_signal\<close>: the result pair and the manager after the call.
\<close>

definition add_signal ::
  "SignalManager \<Rightarrow> TradeSignal \<Rightarrow> (bool \<times> string option) \<times> SignalManager" where
  "add_signal m s =
     (let (is_valid, error) = validate s in
      if \<not> is_valid then ((False, error), m)
      else if signal_id s \<in> processed_signals m then ((False, Some ''Duplicate signal''), m)
      else if int (length (queue m)) \<ge> max_queue_size m then ((False, Some ''Queue is full''), m)
      else ((True, None),
            m\<lparr>queue := queue m @ [s],
              processed_signals := insert (signal_id s) (processed_signals m)\<rparr>))"

text \<open>
  The trimming at the end of \<open>get_signals\<close>: a history longer than \<open>max_history\<close>
  becomes \<open>history[-max_history:]\<close>.
\<close>

definition trim_history :: "int \<Rightarrow> 'a list \<Rightarrow> 'a list" where
  "trim_history mh h = (if int (length h) > mh then slice_from h (- mh) else h)"

text \<open>
  \<open>SignalManager.get_signals\<close>: the list returned and the manager after the call.
  The signals come off the front of the queue, the history is extended by them and
  then trimmed.
\<close>

definition get_signals ::
  "SignalManager \<Rightarrow> int option \<Rightarrow> TradeSignal list \<times> SignalManager" where
  "get_signals m count =
     (let (signals, rest) =
            (case count of
               None \<Rightarrow> (queue m, [])
             | Some k \<Rightarrow> (slice_to (queue m) k, slice_from (queue m) k))
      in (signals,
          m\<lparr>queue := rest, history := trim_history (max_history m) (history m @ signals)\<rparr>))"

definition get_queue_size :: "SignalManager \<Rightarrow> int" where
  "get_queue_size m = int (length (queue m))"

definition clear_queue :: "SignalManager \<Rightarrow> SignalManager" where
  "clear_queue m = m\<lparr>queue := []\<rparr>"

definition get_history :: "SignalManager \<Rightarrow> int option \<Rightarrow> TradeSignal list" where
  "get_history m limit =
     (case limit of
        None \<Rightarrow> history m
      | Some l \<Rightarrow> if l > 0 then slice_from (history m) (- l) else [])"

definition get_signal_by_id :: "SignalManager \<Rightarrow> string \<Rightarrow> TradeSignal option" where
  "get_signal_by_id m sid = find (\<lambda>s. signal_id s = Some sid) (rev (history m))"

text \<open>
  The operations of the store as values, the manager each one leaves behind, and a
  sequence of them run from left to right.
\<close>

datatype store_op =
    Add TradeSignal
  | Take "int option"
  | Clear
  | History "int option"
  | Find string
  | Size

fun apply_op :: "SignalManager \<Rightarrow> store_op \<Rightarrow> SignalManager" where
  "apply_op m (Add s) = snd (add_signal m s)"
| "apply_op m (Take count) = snd (get_signals m count)"
| "apply_op m Clear = clear_queue m"
| "apply_op m (History limit) = m"
| "apply_op m (Find sid) = m"
| "apply_op m Size = m"

definition run_ops :: "SignalManager \<Rightarrow> store_op list \<Rightarrow> SignalManager" where
  "run_ops m ops = foldl apply_op m ops"

section \<open>signal_manager.py: construction and serialisation of a TradeSignal\<close>

text \<open>\<open>str(n)\<close> for an integer: its decimal digits, with a minus sign when negative.\<close>

fun digits10 :: "nat \<Rightarrow> string" where
  "digits10 n =
     (if n < 10 then [''0123456789'' ! n]
      else digits10 (n div 10) @ [''0123456789'' ! (n mod 10)])"

definition str_int :: "int \<Rightarrow> string" where
  "str_int i = (if i < 0 then ''-'' @ digits10 (nat (- i)) else digits10 (nat i))"

text \<open>
  \<open>TradeSignal.__post_init__\<close>: a missing timestamp becomes the reading of the clock
  (\<open>datetime.now()\<close>, the argument \<open>now\<close>), a missing id is derived from symbol, action
  and \<open>int(timestamp.timestamp())\<close>. The latter is the standard library's conversion of
  a datetime to POSIX seconds as a double, truncated to an integer; it depends on the
  local time zone and on the rounding of the double, and is the argument
  \<open>posix_seconds\<close>.
\<close>

definition post_init :: "(datetime \<Rightarrow> int) \<Rightarrow> datetime \<Rightarrow> TradeSignal \<Rightarrow> TradeSignal" where
  "post_init posix_seconds now s =
     (let ts = (case timestamp s of None \<Rightarrow> now | Some t \<Rightarrow> t);
          sid = (case signal_id s of
                   None \<Rightarrow> symbol s @ ''_'' @ action s @ ''_'' @ str_int (posix_seconds ts)
                 | Some i \<Rightarrow> i)
      in s\<lparr>timestamp := Some ts, signal_id := Some sid\<rparr>)"

text \<open>
  The values of a parsed JSON document, which are also the values of the dictionaries
  that \<open>to_dict\<close> builds. A dictionary is the list of its items in insertion order,
  each key once.
\<close>

datatype jval =
    JNull
  | JBool bool
  | JInt int
  | JFloat pyfloat
  | JStr string
  | JList "jval list"
  | JDict "(string \<times> jval) list"

type_synonym pydict = "(string \<times> jval) list"

datatype py_error =
    ValueError
  | TypeError
  | AttributeError
  | IllTyped string

definition bind_err :: "py_error + 'a \<Rightarrow> ('a \<Rightarrow> py_error + 'b) \<Rightarrow> py_error + 'b" where
  "bind_err r f = (case r of Inl e \<Rightarrow> Inl e | Inr x \<Rightarrow> f x)"

text \<open>
  \<open>TradeSignal.to_dict\<close>. \<open>datetime.isoformat\<close> belongs to the standard library and is
  an argument. Every field is present (\<open>asdict\<close>), the timestamp as its ISO text.
\<close>

definition opt_jfloat :: "pyfloat option \<Rightarrow> jval" where
  "opt_jfloat x = (case x of None \<Rightarrow> JNull | Some v \<Rightarrow> JFloat v)"

definition opt_jstr :: "string option \<Rightarrow> jval" where
  "opt_jstr x = (case x of None \<Rightarrow> JNull | Some v \<Rightarrow> JStr v)"

definition to_dict :: "(datetime \<Rightarrow> string) \<Rightarrow> TradeSignal \<Rightarrow> pydict" where
  "to_dict isoformat s =
     [(''symbol'', JStr (symbol s)),
      (''action'', JStr (action s)),
      (''broker'', JStr (broker s)),
      (''lot_size'', JFloat (lot_size s)),
      (''stop_loss'', opt_jfloat (stop_loss s)),
      (''take_profit'', opt_jfloat (take_profit s)),
      (''comment'', JStr (comment s)),
      (''timestamp'', opt_jstr (map_option isoformat (timestamp s))),
      (''signal_id'', opt_jstr (signal_id s))]"

text \<open>
  Reading the fields back. The dataclass does not check the type of a value; a value
  that is not of the field's declared type has no counterpart in the record and is
  reported as \<open>IllTyped\<close>. An integer in a float field denotes the same number.
\<close>

definition get_str :: "string \<Rightarrow> jval \<Rightarrow> py_error + string" where
  "get_str k v = (case v of JStr x \<Rightarrow> Inr x | _ \<Rightarrow> Inl (IllTyped k))"

definition get_float :: "string \<Rightarrow> jval \<Rightarrow> py_error + pyfloat" where
  "get_float k v =
     (case v of JFloat x \<Rightarrow> Inr x | JInt n \<Rightarrow> Inr (Fin (of_int n)) | _ \<Rightarrow> Inl (IllTyped k))"

definition get_opt_float :: "string \<Rightarrow> jval \<Rightarrow> py_error + pyfloat option" where
  "get_opt_float k v =
     (case v of
        JNull \<Rightarrow> Inr None
      | JFloat x \<Rightarrow> Inr (Some x)
      | JInt n \<Rightarrow> Inr (Some (Fin (of_int n)))
      | _ \<Rightarrow> Inl (IllTyped k))"

definition get_opt_str :: "string \<Rightarrow> jval \<Rightarrow> py_error + string option" where
  "get_opt_str k v =
     (case v of JNull \<Rightarrow> Inr None | JStr x \<Rightarrow> Inr (Some x) | _ \<Rightarrow> Inl (IllTyped k))"

text \<open>\<open>data.get(k, default)\<close>\<close>

definition dict_get :: "pydict \<Rightarrow> string \<Rightarrow> jval \<Rightarrow> jval" where
  "dict_get data k dflt = (case map_of data k of None \<Rightarrow> dflt | Some v \<Rightarrow> v)"

definition field_names :: "string list" where
  "field_names =
     [''symbol'', ''action'', ''broker'', ''lot_size'', ''stop_loss'', ''take_profit'',
      ''comment'', ''timestamp'', ''signal_id'']"

definition required_fields :: "string list" where
  "required_fields = [''symbol'', ''action'', ''broker'', ''lot_size'']"

text \<open>
  \<open>TradeSignal.from_dict\<close>, with \<open>datetime.fromisoformat\<close> (\<open>None\<close> where it raises
  \<open>ValueError\<close>), the conversion to POSIX seconds and the clock as arguments. A timestamp that is a string is parsed
  first; then \<open>cls(**data)\<close> raises \<open>TypeError\<close> for a key that is not a field and for a
  missing field without a default, fills the defaults in, and runs \<open>__post_init__\<close>.
\<close>

definition from_dict ::
  "(string \<Rightarrow> datetime option) \<Rightarrow> (datetime \<Rightarrow> int) \<Rightarrow> datetime \<Rightarrow> pydict
     \<Rightarrow> py_error + TradeSignal" where
  "from_dict fromisoformat posix_seconds now data =
     (case (case map_of data ''timestamp'' of
              Some (JStr x) \<Rightarrow> map_option Some (fromisoformat x)
            | _ \<Rightarrow> Some None) of
        None \<Rightarrow> Inl ValueError
      | Some parsed \<Rightarrow>
        if \<not> set (map fst data) \<subseteq> set field_names then Inl TypeError
        else if \<not> set required_fields \<subseteq> set (map fst data) then Inl TypeError
        else
          bind_err (get_str ''symbol'' (dict_get data ''symbol'' JNull)) (\<lambda>sy.
          bind_err (get_str ''action'' (dict_get data ''action'' JNull)) (\<lambda>ac.
          bind_err (get_str ''broker'' (dict_get data ''broker'' JNull)) (\<lambda>br.
          bind_err (get_float ''lot_size'' (dict_get data ''lot_size'' JNull)) (\<lambda>lo.
          bind_err (get_opt_float ''stop_loss'' (dict_get data ''stop_loss'' JNull)) (\<lambda>sl.
          bind_err (get_opt_float ''take_profit'' (dict_get data ''take_profit'' JNull)) (\<lambda>tp.
          bind_err (get_str ''comment'' (dict_get data ''comment'' (JStr ''''))) (\<lambda>co.
          bind_err (case dict_get data ''timestamp'' JNull of
                      JNull \<Rightarrow> Inr None
                    | JStr _ \<Rightarrow> Inr parsed
                    | _ \<Rightarrow> Inl (IllTyped ''timestamp'')) (\<lambda>ts.
          bind_err (get_opt_str ''signal_id'' (dict_get data ''signal_id'' JNull)) (\<lambda>si.
            Inr (post_init posix_seconds now
                   \<lparr>symbol = sy, action = ac, broker = br, lot_size = lo, stop_loss = sl,
                    take_profit = tp, comment = co, timestamp = ts,
                    signal_id = si\<rparr>)))))))))))"

text \<open>
  \<open>to_json\<close> and \<open>from_json\<close> wrap the two in \<open>json.dumps\<close> and \<open>json.loads\<close>, which are
  arguments (\<open>loads\<close> gives \<open>None\<close> where it raises; on a document that is not an object
  \<open>from_dict\<close> raises \<open>TypeError\<close>).
\<close>

definition to_json :: "(jval \<Rightarrow> string) \<Rightarrow> (datetime \<Rightarrow> string) \<Rightarrow> TradeSignal \<Rightarrow> string" where
  "to_json dumps isoformat s = dumps (JDict (to_dict isoformat s))"

definition from_json ::
  "(string \<Rightarrow> jval option) \<Rightarrow> (string \<Rightarrow> datetime option) \<Rightarrow> (datetime \<Rightarrow> int)
     \<Rightarrow> datetime \<Rightarrow> string \<Rightarrow> py_error + TradeSignal" where
  "from_json loads fromisoformat posix_seconds now json_str =
     (case loads json_str of
        None \<Rightarrow> Inl ValueError
      | Some (JDict data) \<Rightarrow> from_dict fromisoformat posix_seconds now data
      | Some _ \<Rightarrow> Inl TypeError)"

section \<open>mql5_bridge.py: MQL5Bridge\<close>

text \<open>
  The state of a bridge that the request handler and the heartbeat monitor read and
  write. The ZeroMQ context and socket are the transport and are left out.
\<close>

record bridge_stats =
  signals_sent :: int
  signals_received :: int
  errors :: int
  reconnections :: int

record MQL5Bridge =
  port :: int
  host :: string
  running :: bool
  signal_manager :: SignalManager
  connection_status :: string
  last_heartbeat :: "datetime option"
  heartbeat_timeout :: int
  stats :: bridge_stats

text \<open>\<open>MQL5Bridge.__init__\<close>\<close>

definition init_bridge :: "int \<Rightarrow> string \<Rightarrow> MQL5Bridge" where
  "init_bridge p h =
     \<lparr>port = p, host = h, running = False, signal_manager = init_manager 1000 10000,
      connection_status = ''disconnected'', last_heartbeat = None, heartbeat_timeout = 30,
      stats = \<lparr>signals_sent = 0, signals_received = 0, errors = 0, reconnections = 0\<rparr>\<rparr>"

text \<open>
  \<open>request.get('action', '').upper()\<close>: a value that is not a string has no \<open>upper\<close>
  and raises \<open>AttributeError\<close>.
\<close>

definition request_action :: "pydict \<Rightarrow> py_error + string" where
  "request_action request =
     (case dict_get request ''action'' (JStr '''') of
        JStr a \<Rightarrow> Inr (upper a)
      | _ \<Rightarrow> Inl AttributeError)"

text \<open>
  \<open>request.get('count', None)\<close> as the bound of the slices in \<open>get_signals\<close>: \<open>None\<close>, an
  integer or a boolean (an integer in Python); any other value raises \<open>TypeError\<close> at the
  first slice, before the manager is changed.
\<close>

definition request_count :: "pydict \<Rightarrow> py_error + int option" where
  "request_count request =
     (case dict_get request ''count'' JNull of
        JNull \<Rightarrow> Inr None
      | JInt k \<Rightarrow> Inr (Some k)
      | JBool b \<Rightarrow> Inr (Some (if b then 1 else 0))
      | _ \<Rightarrow> Inl TypeError)"

definition stats_dict :: "bridge_stats \<Rightarrow> jval" where
  "stats_dict st =
     JDict [(''signals_sent'', JInt (signals_sent st)),
            (''signals_received'', JInt (signals_received st)),
            (''errors'', JInt (errors st)),
            (''reconnections'', JInt (reconnections st))]"

text \<open>
  \<open>MQL5Bridge._process_request\<close>: the response and the bridge after the call, or the
  exception that leaves the handler (the bridge is then as it was). \<open>now\<close> and \<open>now2\<close>
  are the readings of the clock, in the order taken. Log lines are not part of the
  result.
\<close>

definition process_request ::
  "(datetime \<Rightarrow> string) \<Rightarrow> datetime \<Rightarrow> datetime \<Rightarrow> MQL5Bridge \<Rightarrow> pydict
     \<Rightarrow> py_error + (pydict \<times> MQL5Bridge)" where
  "process_request isoformat now now2 b request =
     bind_err (request_action request) (\<lambda>act.
       if act = ''GET_SIGNALS'' then
         bind_err (request_count request) (\<lambda>count.
           let (signals, sm) = get_signals (signal_manager b) count;
               signal_dicts = map (\<lambda>s. JDict (to_dict isoformat s)) signals;
               b' = b\<lparr>signal_manager := sm,
                      stats := (stats b)\<lparr>signals_sent :=
                                 signals_sent (stats b) + int (length signals)\<rparr>\<rparr>
           in Inr ([(''status'', JStr ''OK''),
                    (''signals'', JList signal_dicts),
                    (''queue_size'', JInt (get_queue_size sm))], b'))
       else if act = ''SEND_STATUS'' then
         Inr ([(''status'', JStr ''OK'')],
              b\<lparr>last_heartbeat := Some now, connection_status := ''connected''\<rparr>)
       else if act = ''HEARTBEAT'' then
         Inr ([(''status'', JStr ''OK''),
               (''timestamp'', JStr (isoformat now2)),
               (''queue_size'', JInt (get_queue_size (signal_manager b)))],
              b\<lparr>last_heartbeat := Some now, connection_status := ''connected''\<rparr>)
       else if act = ''GET_BRIDGE_STATUS'' then
         Inr ([(''status'', JStr ''OK''),
               (''connection_status'', JStr (connection_status b)),
               (''queue_size'', JInt (get_queue_size (signal_manager b))),
               (''stats'', stats_dict (stats b)),
               (''last_heartbeat'', opt_jstr (map_option isoformat (last_heartbeat b)))],
              b)
       else
         Inr ([(''status'', JStr ''ERROR''), (''message'', JStr (''Unknown action: '' @ act))],
              b))"

text \<open>\<open>MQL5Bridge.send_signal\<close>\<close>

definition send_signal ::
  "MQL5Bridge \<Rightarrow> TradeSignal \<Rightarrow> (bool \<times> string option) \<times> MQL5Bridge" where
  "send_signal b s =
     (let (r, sm) = add_signal (signal_manager b) s in (r, b\<lparr>signal_manager := sm\<rparr>))"

text \<open>
  \<open>MQL5Bridge._monitor_heartbeat\<close>. \<open>monitor_poll\<close> is the body of its loop after the
  sleep, at clock reading \<open>now\<close>: the bridge it leaves and the warnings it logs, each
  with the elapsed seconds it reports. \<open>monitor_heartbeat\<close> is the loop, run for the
  clock readings of its successive wake-ups.
\<close>

datatype log_record = Warning_connection_lost real

definition monitor_poll :: "datetime \<Rightarrow> MQL5Bridge \<Rightarrow> MQL5Bridge \<times> log_record list" where
  "monitor_poll now b =
     (case last_heartbeat b of
        None \<Rightarrow> (b, [])
      | Some lh \<Rightarrow>
          let elapsed = total_seconds now lh in
          if elapsed > real_of_int (heartbeat_timeout b)
          then (b\<lparr>connection_status := ''disconnected''\<rparr>, [Warning_connection_lost elapsed])
          else (b, []))"

fun monitor_heartbeat :: "datetime list \<Rightarrow> MQL5Bridge \<Rightarrow> MQL5Bridge \<times> log_record list" where
  "monitor_heartbeat [] b = (b, [])"
| "monitor_heartbeat (now # wakes) b =
     (if running b then
        (let (b1, l1) = monitor_poll now b;
             (b2, l2) = monitor_heartbeat wakes b1
         in (b2, l1 @ l2))
      else (b, []))"

section \<open>Example values\<close>

definition sig_eurusd :: TradeSignal where
  "sig_eurusd =
     \<lparr>symbol = ''EURUSD'', action = ''BUY'', broker = ''exness'', lot_size = Fin 0.01,
      stop_loss = Some (Fin 1.0850), take_profit = Some (Fin 1.0900), comment = '''',
      timestamp = Some (DT 1700000000000000), signal_id = Some ''EURUSD_BUY_1700000000''\<rparr>"

definition sig_gbpusd :: TradeSignal where
  "sig_gbpusd =
     \<lparr>symbol = ''GBPUSD'', action = ''sell'', broker = ''exness'', lot_size = Fin 0.02,
      stop_loss = Some (Fin 1.2700), take_profit = Some (Fin 1.2600), comment = ''short'',
      timestamp = Some (DT 1700000001000000), signal_id = Some ''GBPUSD_sell_1700000001''\<rparr>"

definition sig_usdjpy :: TradeSignal where
  "sig_usdjpy =
     \<lparr>symbol = ''USDJPY'', action = ''CLOSE'', broker = ''exness'', lot_size = Fin 0.1,
      stop_loss = None, take_profit = None, comment = '''',
      timestamp = Some (DT 1700000002000000), signal_id = Some ''USDJPY_CLOSE_1700000002''\<rparr>"

definition sig_audusd :: TradeSignal where
  "sig_audusd =
     \<lparr>symbol = ''AUDUSD'', action = ''Modify'', broker = ''exness'', lot_size = Fin 0.05,
      stop_loss = Some (Fin 0.6400), take_profit = None, comment = ''trail'',
      timestamp = Some (DT 1700000003000000), signal_id = Some ''AUDUSD_Modify_1700000003''\<rparr>"

text \<open>A BUY whose stop loss is above its take profit, and a SELL whose is below.\<close>

definition sig_bad_buy :: TradeSignal where
  "sig_bad_buy = sig_eurusd\<lparr>stop_loss := Some (Fin 1.0950)\<rparr>"

definition sig_bad_sell :: TradeSignal where
  "sig_bad_sell = sig_gbpusd\<lparr>stop_loss := Some (Fin 1.2500)\<rparr>"

text \<open>
  A manager holding three pending signals with a history cap of two, the same with a
  history cap of one, one with a history cap of zero, and the manager after two signals were queued and taken one
  after the other.
\<close>

definition store3 :: SignalManager where
  "store3 =
     \<lparr>queue = [sig_eurusd, sig_gbpusd, sig_usdjpy], history = [], max_queue_size = 3,
      max_history = 2,
      processed_signals = {signal_id sig_eurusd, signal_id sig_gbpusd, signal_id sig_usdjpy}\<rparr>"

definition store_cap1 :: SignalManager where
  "store_cap1 = store3\<lparr>max_history := 1\<rparr>"

definition store_cap0 :: SignalManager where
  "store_cap0 = run_ops (init_manager 1000 0) [Add sig_eurusd, Take None]"

definition store_taken2 :: SignalManager where
  "store_taken2 =
     run_ops (init_manager 1000 10000)
       [Add sig_eurusd, Take (Some 1), Add sig_gbpusd, Take (Some 1)]"

text \<open>
  The spec's words for the result of \<open>history(limit)\<close>: the entries most recent first,
  at most \<open>limit\<close> of them.
\<close>

definition history_most_recent_first :: "SignalManager \<Rightarrow> int option \<Rightarrow> TradeSignal list" where
  "history_most_recent_first m limit =
     (case limit of
        None \<Rightarrow> rev (history m)
      | Some l \<Rightarrow> take (nat l) (rev (history m)))"

text \<open>
  \<open>datetime.isoformat\<close> and \<open>datetime.fromisoformat\<close> on the timestamps of the examples,
  and a one-document stand-in for \<open>json.dumps\<close> and \<open>json.loads\<close>.
\<close>

definition iso_table :: "(datetime \<times> string) list" where
  "iso_table =
     [(DT 1700000000000000, ''2023-11-14T22:13:20''),
      (DT 1700000001000000, ''2023-11-14T22:13:21''),
      (DT 1700000002000000, ''2023-11-14T22:13:22''),
      (DT 1700000003000000, ''2023-11-14T22:13:23'')]"

text \<open>
  The POSIX seconds of the example timestamps, which are whole seconds in UTC: there
  the double is exact.
\<close>

definition example_posix_seconds :: "datetime \<Rightarrow> int" where
  "example_posix_seconds t = micros t div 1000000"

definition example_isoformat :: "datetime \<Rightarrow> string" where
  "example_isoformat t = (case map_of iso_table t of None \<Rightarrow> [] | Some x \<Rightarrow> x)"

definition example_fromisoformat :: "string \<Rightarrow> datetime option" where
  "example_fromisoformat x = map_of (map (\<lambda>(t, y). (y, t)) iso_table) x"

definition example_dumps :: "jval \<Rightarrow> string" where
  "example_dumps v =
     (if v = JDict (to_dict example_isoformat sig_eurusd) then ''EURUSD_BUY_1700000000.json''
      else ''null'')"

definition example_loads :: "string \<Rightarrow> jval option" where
  "example_loads x =
     (if x = ''EURUSD_BUY_1700000000.json''
      then Some (JDict (to_dict example_isoformat sig_eurusd))
      else if x = ''null'' then Some JNull
      else None)"

text \<open>
  The bridge a producer has sent one signal to, and a bridge whose peer was last
  heard at time 0 and has been silent since.
\<close>

definition bridge_one_pending :: MQL5Bridge where
  "bridge_one_pending = snd (send_signal (init_bridge 5555 ''127.0.0.1'') sig_eurusd)"

definition bridge_silent :: MQL5Bridge where
  "bridge_silent =
     (init_bridge 5555 ''127.0.0.1'')
       \<lparr>running := True, connection_status := ''connected'', last_heartbeat := Some (DT 0)\<rparr>"

text \<open>The bridge a handled request leaves behind, if it was handled.\<close>

definition bridge_after :: "py_error + (pydict \<times> MQL5Bridge) \<Rightarrow> MQL5Bridge option" where
  "bridge_after r = (case r of Inl _ \<Rightarrow> None | Inr (_, b) \<Rightarrow> Some b)"

section \<open>Evaluating the examples\<close>

lemmas validate_eval =
  validate_def upper_def upper_char_def TradeAction_of_def opt_truthy_def f_truthy_def f_ge_def

lemma validate_sig_eurusd: "validate sig_eurusd = (True, None)"
  by (simp add: sig_eurusd_def validate_eval)

lemma validate_sig_gbpusd: "validate sig_gbpusd = (True, None)"
  by (simp add: sig_gbpusd_def validate_eval)

lemma validate_sig_usdjpy: "validate sig_usdjpy = (True, None)"
  by (simp add: sig_usdjpy_def validate_eval)

lemma validate_sig_audusd: "validate sig_audusd = (True, None)"
  by (simp add: sig_audusd_def validate_eval)

lemma validate_sig_bad_buy:
  "validate sig_bad_buy = (False, Some ''Stop loss must be less than take profit for BUY'')"
  by (simp add: sig_bad_buy_def sig_eurusd_def validate_eval)

lemma sig_ids:
  "signal_id sig_eurusd = Some ''EURUSD_BUY_1700000000''"
  "signal_id sig_gbpusd = Some ''GBPUSD_sell_1700000001''"
  "signal_id sig_usdjpy = Some ''USDJPY_CLOSE_1700000002''"
  "signal_id sig_audusd = Some ''AUDUSD_Modify_1700000003''"
  "signal_id sig_bad_buy = Some ''EURUSD_BUY_1700000000''"
  by (simp_all add: sig_eurusd_def sig_gbpusd_def sig_usdjpy_def sig_audusd_def sig_bad_buy_def)

lemma sig_distinct:
  "sig_eurusd \<noteq> sig_gbpusd" "sig_gbpusd \<noteq> sig_usdjpy" "sig_eurusd \<noteq> sig_usdjpy"
  by (simp_all add: sig_eurusd_def sig_gbpusd_def sig_usdjpy_def)

lemma store_cap0_eval:
  "store_cap0 =
     \<lparr>queue = [], history = [sig_eurusd], max_queue_size = 1000, max_history = 0,
      processed_signals = {signal_id sig_eurusd}\<rparr>"
  by (simp add: store_cap0_def run_ops_def init_manager_def add_signal_def validate_sig_eurusd
      get_signals_def trim_history_def slice_from_def slice_index_def)

lemma store_taken2_eval:
  "store_taken2 =
     \<lparr>queue = [], history = [sig_eurusd, sig_gbpusd], max_queue_size = 1000,
      max_history = 10000, processed_signals = {signal_id sig_gbpusd, signal_id sig_eurusd}\<rparr>"
  by (simp add: store_taken2_def run_ops_def init_manager_def add_signal_def validate_sig_eurusd
      validate_sig_gbpusd sig_ids get_signals_def trim_history_def slice_from_def slice_to_def
      slice_index_def)

section \<open>Validation\<close>

text \<open>\<open>validate\<close> has two shapes of result: accepted without a reason, or refused with one.\<close>

lemma validate_cases:
  "validate s = (True, None) \<or> (\<exists>r. validate s = (False, Some r))"
  by (auto simp: validate_def split: option.splits)

text \<open>
  C3. A signal with both levels present is refused with a reason string when its
  action is BUY and stop loss \<open>>=\<close> take profit, and when its action is SELL and stop loss
  \<open><=\<close> take profit (the action is compared in upper case, as the code does). When the
  other fields pass their checks, the reason is the one of the ordering check.
  \<open>validate\<close> is a total function into \<open>bool \<times> string option\<close>: the only exception its
  body can meet, the \<open>ValueError\<close> of an unknown action, is a branch with a reason.
\<close>

theorem validate_rejects_misordered_levels:
  assumes "stop_loss s = Some sl" and "take_profit s = Some tp"
  shows "(upper (action s) = ''BUY'' \<and> f_ge sl tp \<longrightarrow> (\<exists>r. validate s = (False, Some r)))
       \<and> (upper (action s) = ''SELL'' \<and> f_le sl tp \<longrightarrow> (\<exists>r. validate s = (False, Some r)))
       \<and> (3 \<le> length (symbol s) \<and> \<not> f_le (lot_size s) (Fin 0) \<and> \<not> f_le sl (Fin 0)
            \<and> \<not> f_le tp (Fin 0) \<and> upper (action s) = ''BUY'' \<and> f_ge sl tp
          \<longrightarrow> validate s = (False, Some ''Stop loss must be less than take profit for BUY''))
       \<and> (3 \<le> length (symbol s) \<and> \<not> f_le (lot_size s) (Fin 0) \<and> \<not> f_le sl (Fin 0)
            \<and> \<not> f_le tp (Fin 0) \<and> upper (action s) = ''SELL'' \<and> f_le sl tp
          \<longrightarrow> validate s =
                (False, Some ''Stop loss must be greater than take profit for SELL''))"
proof -
  have zero: "f_le (Fin 0) (Fin 0)" by simp
  have t1: "\<not> f_le sl (Fin 0) \<Longrightarrow> f_truthy sl"
    using zero by (auto simp: f_truthy_def)
  have t2: "\<not> f_le tp (Fin 0) \<Longrightarrow> f_truthy tp"
    using zero by (auto simp: f_truthy_def)
  show ?thesis
    using assms t1 t2
    by (auto simp: validate_def TradeAction_of_def opt_truthy_def f_ge_def)
qed

theorem validate_rejects_misordered_levels_witness:
  "validate sig_bad_buy = (False, Some ''Stop loss must be less than take profit for BUY'')
   \<and> validate sig_bad_sell =
       (False, Some ''Stop loss must be greater than take profit for SELL'')"
proof -
  have b: "stop_loss sig_bad_buy = Some (Fin 1.0950)"
    "take_profit sig_bad_buy = Some (Fin 1.0900)"
    by (simp_all add: sig_bad_buy_def sig_eurusd_def)
  have s: "stop_loss sig_bad_sell = Some (Fin 1.2500)"
    "take_profit sig_bad_sell = Some (Fin 1.2600)"
    by (simp_all add: sig_bad_sell_def sig_gbpusd_def)
  have hb: "3 \<le> length (symbol sig_bad_buy) \<and> \<not> f_le (lot_size sig_bad_buy) (Fin 0)
      \<and> \<not> f_le (Fin 1.0950) (Fin 0) \<and> \<not> f_le (Fin 1.0900) (Fin 0)
      \<and> upper (action sig_bad_buy) = ''BUY'' \<and> f_ge (Fin 1.0950) (Fin 1.0900)"
    by (simp add: sig_bad_buy_def sig_eurusd_def upper_def upper_char_def f_ge_def)
  have hs: "3 \<le> length (symbol sig_bad_sell) \<and> \<not> f_le (lot_size sig_bad_sell) (Fin 0)
      \<and> \<not> f_le (Fin 1.2500) (Fin 0) \<and> \<not> f_le (Fin 1.2600) (Fin 0)
      \<and> upper (action sig_bad_sell) = ''SELL'' \<and> f_le (Fin 1.2500) (Fin 1.2600)"
    by (simp add: sig_bad_sell_def sig_gbpusd_def upper_def upper_char_def)
  show ?thesis
    using validate_rejects_misordered_levels [OF b] validate_rejects_misordered_levels [OF s]
      hb hs
    by blast
qed

section \<open>Admission to the queue\<close>

text \<open>
  C1. \<open>add_signal\<close> refuses in this order: a signal that fails validation, with the
  reason of \<open>validate\<close>; then a signal whose id is in the dedup set; then any signal when
  the queue has reached its capacity. Every refusal returns \<open>(False, reason)\<close> and the
  manager (queue, history, dedup set and both caps) exactly as it was. Otherwise the
  result is \<open>(True, None)\<close>, the signal is the new last element of the queue, its id is
  in the dedup set and the history is untouched.
\<close>

theorem add_signal_priority:
  "(\<not> fst (validate s) \<longrightarrow>
      add_signal m s = ((False, snd (validate s)), m) \<and> (\<exists>r. snd (validate s) = Some r))
   \<and> (fst (validate s) \<and> signal_id s \<in> processed_signals m \<longrightarrow>
      add_signal m s = ((False, Some ''Duplicate signal''), m))
   \<and> (fst (validate s) \<and> signal_id s \<notin> processed_signals m
        \<and> max_queue_size m \<le> int (length (queue m)) \<longrightarrow>
      add_signal m s = ((False, Some ''Queue is full''), m))
   \<and> (fst (validate s) \<and> signal_id s \<notin> processed_signals m
        \<and> int (length (queue m)) < max_queue_size m \<longrightarrow>
      add_signal m s =
        ((True, None),
         m\<lparr>queue := queue m @ [s],
           processed_signals := insert (signal_id s) (processed_signals m)\<rparr>))
   \<and> (\<not> fst (fst (add_signal m s)) \<longrightarrow>
        snd (add_signal m s) = m \<and> (\<exists>r. snd (fst (add_signal m s)) = Some r))
   \<and> (fst (fst (add_signal m s)) \<longrightarrow>
        snd (fst (add_signal m s)) = None
        \<and> queue (snd (add_signal m s)) = queue m @ [s]
        \<and> history (snd (add_signal m s)) = history m
        \<and> processed_signals (snd (add_signal m s)) =
            insert (signal_id s) (processed_signals m))"
  using validate_cases [of s]
  by (auto simp: add_signal_def)

theorem add_signal_priority_witness:
  "add_signal store3 sig_bad_buy =
     ((False, Some ''Stop loss must be less than take profit for BUY''), store3)
   \<and> add_signal store3 sig_eurusd = ((False, Some ''Duplicate signal''), store3)
   \<and> add_signal store3 sig_audusd = ((False, Some ''Queue is full''), store3)
   \<and> add_signal (init_manager 1000 10000) sig_eurusd =
       ((True, None),
        \<lparr>queue = [sig_eurusd], history = [], max_queue_size = 1000, max_history = 10000,
         processed_signals = {signal_id sig_eurusd}\<rparr>)"
proof -
  have c1: "add_signal store3 sig_bad_buy =
              ((False, Some ''Stop loss must be less than take profit for BUY''), store3)"
    using add_signal_priority [of sig_bad_buy store3] by (simp add: validate_sig_bad_buy)
  have seen: "signal_id sig_eurusd \<in> processed_signals store3"
    by (simp add: store3_def)
  have c2: "add_signal store3 sig_eurusd = ((False, Some ''Duplicate signal''), store3)"
    using add_signal_priority [of sig_eurusd store3] seen by (simp add: validate_sig_eurusd)
  have fresh: "signal_id sig_audusd \<notin> processed_signals store3"
    by (simp add: store3_def sig_ids)
  have full: "max_queue_size store3 \<le> int (length (queue store3))"
    by (simp add: store3_def)
  have c3: "add_signal store3 sig_audusd = ((False, Some ''Queue is full''), store3)"
    using add_signal_priority [of sig_audusd store3] fresh full
    by (simp add: validate_sig_audusd)
  have room: "signal_id sig_eurusd \<notin> processed_signals (init_manager 1000 10000)
      \<and> int (length (queue (init_manager 1000 10000))) < max_queue_size (init_manager 1000 10000)"
    by (simp add: init_manager_def)
  have c4: "add_signal (init_manager 1000 10000) sig_eurusd =
       ((True, None),
        \<lparr>queue = [sig_eurusd], history = [], max_queue_size = 1000, max_history = 10000,
         processed_signals = {signal_id sig_eurusd}\<rparr>)"
    using add_signal_priority [of sig_eurusd "init_manager 1000 10000"] room
    by (simp add: validate_sig_eurusd init_manager_def)
  from c1 c2 c3 c4 show ?thesis by blast
qed

section \<open>Slices and the history cap\<close>

lemma slice_to_from: "slice_to xs k @ slice_from xs k = xs"
  by (simp add: slice_to_def slice_from_def)

lemma slice_nonneg: "0 \<le> k \<Longrightarrow> slice_index xs k = nat k"
  by (simp add: slice_index_def)

lemma slice_to_negative: "k < 0 \<Longrightarrow> slice_to xs k = take (length xs - nat (- k)) xs"
proof -
  assume neg: "k < 0"
  then have "nat (int (length xs) + k) = length xs - nat (- k)" by linarith
  then show ?thesis using neg by (simp add: slice_to_def slice_index_def)
qed

lemma slice_beyond:
  "int (length xs) \<le> k \<Longrightarrow> slice_to xs k = xs \<and> slice_from xs k = []"
  by (simp add: slice_to_def slice_from_def slice_index_def)

lemma slice_before:
  "k \<le> - int (length xs) \<Longrightarrow> slice_to xs k = [] \<and> slice_from xs k = xs"
  by (cases "k < 0") (simp_all add: slice_to_def slice_from_def slice_index_def)

lemma trim_history_suffix: "\<exists>n. trim_history H h = drop n h"
  by (metis trim_history_def slice_from_def drop_0)

lemma trim_history_fits: "int (length h) \<le> H \<Longrightarrow> trim_history H h = h"
  by (simp add: trim_history_def)

lemma trim_history_keep:
  assumes "0 < H" "H < int (length h)"
  shows "trim_history H h = drop (length h - nat H) h"
proof -
  have "slice_index h (- H) = length h - nat H"
    using assms by (simp add: slice_index_def nat_diff_distrib')
  then show ?thesis using assms by (simp add: trim_history_def slice_from_def)
qed

lemma trim_history_positive:
  assumes "0 < H"
  shows "trim_history H h = drop (length h - nat H) h"
proof (cases "H < int (length h)")
  case True
  then show ?thesis by (rule trim_history_keep [OF assms])
next
  case False
  then have "length h - nat H = 0" by linarith
  then show ?thesis using False by (simp add: trim_history_fits)
qed

lemma trim_history_length: "0 < H \<Longrightarrow> int (length (trim_history H h)) \<le> H"
  by (cases "H < int (length h)") (simp_all add: trim_history_keep trim_history_fits)

section \<open>Taking signals\<close>

lemma get_signals_ret:
  "fst (get_signals m count) =
     (case count of None \<Rightarrow> queue m | Some k \<Rightarrow> slice_to (queue m) k)"
  by (simp add: get_signals_def split: option.split)

lemma get_signals_rest:
  "queue (snd (get_signals m count)) =
     (case count of None \<Rightarrow> [] | Some k \<Rightarrow> slice_from (queue m) k)"
  by (simp add: get_signals_def split: option.split)

lemma get_signals_hist:
  "history (snd (get_signals m count)) =
     trim_history (max_history m) (history m @ fst (get_signals m count))"
  by (simp add: get_signals_def split: option.split)

lemma get_signals_frame:
  "max_queue_size (snd (get_signals m count)) = max_queue_size m
   \<and> max_history (snd (get_signals m count)) = max_history m
   \<and> processed_signals (snd (get_signals m count)) = processed_signals m"
  by (simp add: get_signals_def split: option.split)

text \<open>
  C2, as the claim states it, fails: \<open>store3\<close> has a history cap of two and three
  pending signals; a take of all of them returns \<open>sig_eurusd\<close> first, and afterwards
  \<open>sig_eurusd\<close> is not in the history, which is not the old history followed by the
  returned signals.
\<close>

theorem get_signals_evicts_returned_counterexample:
  "fst (get_signals store3 None) = [sig_eurusd, sig_gbpusd, sig_usdjpy]
   \<and> history (snd (get_signals store3 None)) = [sig_gbpusd, sig_usdjpy]
   \<and> sig_eurusd \<in> set (fst (get_signals store3 None))
   \<and> sig_eurusd \<notin> set (history (snd (get_signals store3 None)))
   \<and> history (snd (get_signals store3 None)) \<noteq>
       history store3 @ fst (get_signals store3 None)"
  by (simp add: get_signals_def store3_def trim_history_def slice_from_def slice_index_def
      sig_distinct)

text \<open>
  C2, amended. For a count \<open>k >= 0\<close>, \<open>get_signals\<close> returns the first
  \<open>min k (length queue)\<close> signals of the queue in queue order and leaves the remaining
  ones queued; with no count it returns the whole queue and leaves it empty. The
  returned signals are appended to the history in that order and the history is then
  trimmed to its cap (the new history is \<open>trim_history\<close> of the old history followed by
  the returned signals): for a cap of at least one the new history is the newest
  \<open>max_history\<close> entries of the old history followed by the returned signals (all of
  them when they fit under the cap), and it is never longer than the cap.
\<close>

theorem get_signals_fifo:
  assumes "get_signals m count = (ret, m')"
  shows "(\<forall>k. count = Some k \<and> 0 \<le> k \<longrightarrow>
            ret = take (nat k) (queue m) \<and> length ret = min (nat k) (length (queue m))
            \<and> queue m' = drop (nat k) (queue m))
       \<and> (count = None \<longrightarrow> ret = queue m \<and> queue m' = [])
       \<and> history m' = trim_history (max_history m) (history m @ ret)
       \<and> (int (length (history m @ ret)) \<le> max_history m \<longrightarrow> history m' = history m @ ret)
       \<and> (0 < max_history m \<and> max_history m < int (length (history m @ ret)) \<longrightarrow>
            history m' = drop (length (history m @ ret) - nat (max_history m)) (history m @ ret))
       \<and> (0 < max_history m \<longrightarrow>
            history m' = drop (length (history m @ ret) - nat (max_history m)) (history m @ ret)
            \<and> int (length (history m')) \<le> max_history m)"
proof -
  have r: "ret = fst (get_signals m count)" and m': "m' = snd (get_signals m count)"
    using assms by simp_all
  have a: "\<forall>k. count = Some k \<and> 0 \<le> k \<longrightarrow>
            ret = take (nat k) (queue m) \<and> length ret = min (nat k) (length (queue m))
            \<and> queue m' = drop (nat k) (queue m)"
    by (auto simp: r m' get_signals_ret get_signals_rest slice_to_def slice_from_def slice_nonneg)
  have b: "count = None \<longrightarrow> ret = queue m \<and> queue m' = []"
    by (simp add: r m' get_signals_ret get_signals_rest)
  have h: "history m' = trim_history (max_history m) (history m @ ret)"
    by (simp add: r m' get_signals_hist)
  have d: "int (length (history m @ ret)) \<le> max_history m \<longrightarrow> history m' = history m @ ret"
    unfolding h using trim_history_fits by blast
  have e: "0 < max_history m \<and> max_history m < int (length (history m @ ret)) \<longrightarrow>
            history m' = drop (length (history m @ ret) - nat (max_history m)) (history m @ ret)"
    unfolding h using trim_history_keep by blast
  have f: "0 < max_history m \<longrightarrow>
            history m' = drop (length (history m @ ret) - nat (max_history m)) (history m @ ret)
            \<and> int (length (history m')) \<le> max_history m"
    unfolding h using trim_history_positive trim_history_length by blast
  from a b h d e f show ?thesis by blast
qed

theorem get_signals_fifo_witness:
  "get_signals store3 (Some 2) =
     ([sig_eurusd, sig_gbpusd],
      store3\<lparr>queue := [sig_usdjpy], history := [sig_eurusd, sig_gbpusd]\<rparr>)
   \<and> [sig_eurusd, sig_gbpusd] = take (nat 2) (queue store3)
   \<and> length [sig_eurusd, sig_gbpusd] = min (nat 2) (length (queue store3))
   \<and> history (store3\<lparr>queue := [sig_usdjpy], history := [sig_eurusd, sig_gbpusd]\<rparr>) =
       history store3 @ [sig_eurusd, sig_gbpusd]
   \<and> get_signals store3 None =
       ([sig_eurusd, sig_gbpusd, sig_usdjpy],
        store3\<lparr>queue := [], history := [sig_gbpusd, sig_usdjpy]\<rparr>)
   \<and> [sig_eurusd, sig_gbpusd, sig_usdjpy] = queue store3
   \<and> history (store3\<lparr>queue := [], history := [sig_gbpusd, sig_usdjpy]\<rparr>) =
       drop (length (history store3 @ [sig_eurusd, sig_gbpusd, sig_usdjpy])
               - nat (max_history store3))
         (history store3 @ [sig_eurusd, sig_gbpusd, sig_usdjpy])
   \<and> int (length (history (store3\<lparr>queue := [], history := [sig_gbpusd, sig_usdjpy]\<rparr>)))
       \<le> max_history store3"
proof -
  have h2: "get_signals store3 (Some 2) =
     ([sig_eurusd, sig_gbpusd],
      store3\<lparr>queue := [sig_usdjpy], history := [sig_eurusd, sig_gbpusd]\<rparr>)"
    by (simp add: get_signals_def store3_def trim_history_def slice_to_def slice_from_def
        slice_index_def)
  have hn: "get_signals store3 None =
       ([sig_eurusd, sig_gbpusd, sig_usdjpy],
        store3\<lparr>queue := [], history := [sig_gbpusd, sig_usdjpy]\<rparr>)"
    by (simp add: get_signals_def store3_def trim_history_def slice_from_def slice_index_def)
  have k: "Some (2::int) = Some 2 \<and> (0::int) \<le> 2" by simp
  have fits: "int (length (history store3 @ [sig_eurusd, sig_gbpusd])) \<le> max_history store3"
    by (simp add: store3_def)
  have over: "0 < max_history store3
      \<and> max_history store3 < int (length (history store3 @ [sig_eurusd, sig_gbpusd, sig_usdjpy]))"
    by (simp add: store3_def)
  show ?thesis
    using get_signals_fifo [OF h2] get_signals_fifo [OF hn] h2 hn k fits over
    by blast
qed

text \<open>
  C10, as the claim states it, fails: with a history cap of one, a take with count
  \<open>-1\<close> returns \<open>sig_eurusd\<close> and \<open>sig_gbpusd\<close>, and afterwards \<open>sig_eurusd\<close> is not
  in the history, which is not the old history followed by the returned signals.
\<close>

theorem get_signals_negative_count_evicts_counterexample:
  "fst (get_signals store_cap1 (Some (- 1))) = [sig_eurusd, sig_gbpusd]
   \<and> queue (snd (get_signals store_cap1 (Some (- 1)))) = [sig_usdjpy]
   \<and> history (snd (get_signals store_cap1 (Some (- 1)))) = [sig_gbpusd]
   \<and> sig_eurusd \<notin> set (history (snd (get_signals store_cap1 (Some (- 1)))))
   \<and> history (snd (get_signals store_cap1 (Some (- 1)))) \<noteq>
       history store_cap1 @ fst (get_signals store_cap1 (Some (- 1)))"
  by (simp add: get_signals_def store_cap1_def store3_def trim_history_def slice_to_def
      slice_from_def slice_index_def sig_distinct)

text \<open>
  C10, amended. For every integer count, negative and out of range included, the
  returned signals followed by the signals left in the queue are the queue before the
  call, so none is lost or duplicated between the two: a negative count returns all
  but the last \<open>-k\<close> signals, a count beyond the length returns all, and a count below
  minus the length returns none. The returned signals are appended to the history
  and the history is then trimmed to its cap (the new history is \<open>trim_history\<close> of the
  old history followed by the returned signals): for a cap of at least one the new
  history is the newest \<open>max_history\<close> entries of the old history followed by the
  returned signals (all of them when they fit under the cap).
\<close>

theorem get_signals_any_count:
  assumes "get_signals m (Some k) = (ret, m')"
  shows "ret @ queue m' = queue m
       \<and> (k < 0 \<longrightarrow> ret = take (length (queue m) - nat (- k)) (queue m))
       \<and> (int (length (queue m)) \<le> k \<longrightarrow> ret = queue m \<and> queue m' = [])
       \<and> (k \<le> - int (length (queue m)) \<longrightarrow> ret = [] \<and> queue m' = queue m)
       \<and> history m' = trim_history (max_history m) (history m @ ret)
       \<and> (int (length (history m @ ret)) \<le> max_history m \<longrightarrow> history m' = history m @ ret)
       \<and> (0 < max_history m \<longrightarrow>
            history m' = drop (length (history m @ ret) - nat (max_history m)) (history m @ ret)
            \<and> int (length (history m')) \<le> max_history m)"
proof -
  have r: "ret = slice_to (queue m) k" and q: "queue m' = slice_from (queue m) k"
    using assms get_signals_ret [of m "Some k"] get_signals_rest [of m "Some k"] by simp_all
  have h: "history m' = trim_history (max_history m) (history m @ ret)"
    using assms get_signals_hist [of m "Some k"] by simp
  have a: "ret @ queue m' = queue m" unfolding r q by (rule slice_to_from)
  have b: "k < 0 \<longrightarrow> ret = take (length (queue m) - nat (- k)) (queue m)"
    unfolding r using slice_to_negative by blast
  have c: "int (length (queue m)) \<le> k \<longrightarrow> ret = queue m \<and> queue m' = []"
    unfolding r q using slice_beyond by blast
  have d: "k \<le> - int (length (queue m)) \<longrightarrow> ret = [] \<and> queue m' = queue m"
    unfolding r q using slice_before by blast
  have f: "int (length (history m @ ret)) \<le> max_history m \<longrightarrow> history m' = history m @ ret"
    unfolding h using trim_history_fits by blast
  have g: "0 < max_history m \<longrightarrow>
            history m' = drop (length (history m @ ret) - nat (max_history m)) (history m @ ret)
            \<and> int (length (history m')) \<le> max_history m"
    unfolding h using trim_history_positive trim_history_length by blast
  from a b c d h f g show ?thesis by blast
qed

theorem get_signals_any_count_witness:
  "get_signals store3 (Some (- 1)) =
     ([sig_eurusd, sig_gbpusd],
      store3\<lparr>queue := [sig_usdjpy], history := [sig_eurusd, sig_gbpusd]\<rparr>)
   \<and> [sig_eurusd, sig_gbpusd]
        @ queue (store3\<lparr>queue := [sig_usdjpy], history := [sig_eurusd, sig_gbpusd]\<rparr>) =
       queue store3
   \<and> [sig_eurusd, sig_gbpusd] = take (length (queue store3) - nat (- (- 1))) (queue store3)
   \<and> history (store3\<lparr>queue := [sig_usdjpy], history := [sig_eurusd, sig_gbpusd]\<rparr>) =
       history store3 @ [sig_eurusd, sig_gbpusd]
   \<and> get_signals store3 (Some 7) =
       ([sig_eurusd, sig_gbpusd, sig_usdjpy],
        store3\<lparr>queue := [], history := [sig_gbpusd, sig_usdjpy]\<rparr>)
   \<and> [sig_eurusd, sig_gbpusd, sig_usdjpy] = queue store3
   \<and> history (store3\<lparr>queue := [], history := [sig_gbpusd, sig_usdjpy]\<rparr>) =
       drop (length (history store3 @ [sig_eurusd, sig_gbpusd, sig_usdjpy])
               - nat (max_history store3))
         (history store3 @ [sig_eurusd, sig_gbpusd, sig_usdjpy])
   \<and> get_signals store3 (Some (- 5)) = ([], store3)
   \<and> [] @ queue store3 = queue store3"
proof -
  have h1: "get_signals store3 (Some (- 1)) =
     ([sig_eurusd, sig_gbpusd],
      store3\<lparr>queue := [sig_usdjpy], history := [sig_eurusd, sig_gbpusd]\<rparr>)"
    by (simp add: get_signals_def store3_def trim_history_def slice_to_def slice_from_def
        slice_index_def)
  have h7: "get_signals store3 (Some 7) =
       ([sig_eurusd, sig_gbpusd, sig_usdjpy],
        store3\<lparr>queue := [], history := [sig_gbpusd, sig_usdjpy]\<rparr>)"
    by (simp add: get_signals_def store3_def trim_history_def slice_to_def slice_from_def
        slice_index_def)
  have h5: "get_signals store3 (Some (- 5)) = ([], store3)"
    by (simp add: get_signals_def store3_def trim_history_def slice_to_def slice_from_def
        slice_index_def)
  have neg: "(- 1 :: int) < 0" by simp
  have beyond: "int (length (queue store3)) \<le> 7" by (simp add: store3_def)
  have fits: "int (length (history store3 @ [sig_eurusd, sig_gbpusd])) \<le> max_history store3"
    by (simp add: store3_def)
  have pos: "0 < max_history store3" by (simp add: store3_def)
  show ?thesis
    using get_signals_any_count [OF h1] get_signals_any_count [OF h7]
      get_signals_any_count [OF h5] h1 h7 h5 neg beyond fits pos
    by blast
qed

section \<open>The history cap\<close>

text \<open>
  C4. With a history cap of zero the trimming slice is \<open>history[-0:]\<close>, the whole
  list: a fresh manager with \<open>max_history = 0\<close> that queues one signal and hands it out
  ends with one entry in its history, above the cap (\<open>store_cap0\<close> is that run).
\<close>

theorem history_exceeds_zero_cap:
  "max_history store_cap0 = 0
   \<and> history store_cap0 = [sig_eurusd]
   \<and> int (length (history store_cap0)) > max_history store_cap0"
  by (simp add: store_cap0_eval)

lemma add_signal_keeps_history:
  "history (snd (add_signal m s)) = history m
   \<and> max_history (snd (add_signal m s)) = max_history m"
  using validate_cases [of s] by (auto simp: add_signal_def)

lemma apply_op_max_history: "max_history (apply_op m op) = max_history m"
  by (cases op) (simp_all add: add_signal_keeps_history get_signals_frame clear_queue_def)

lemma apply_op_history_bound:
  assumes "0 < max_history m" and "int (length (history m)) \<le> max_history m"
  shows "int (length (history (apply_op m op))) \<le> max_history m"
proof (cases op)
  case (Take count)
  then show ?thesis
    using assms(1) by (simp add: get_signals_hist trim_history_length)
qed (use assms in \<open>simp_all add: add_signal_keeps_history clear_queue_def\<close>)

lemma run_ops_history_bound:
  "0 < max_history m \<Longrightarrow> int (length (history m)) \<le> max_history m \<Longrightarrow>
     int (length (history (run_ops m ops))) \<le> max_history m"
proof (induction ops arbitrary: m)
  case Nil
  then show ?case by (simp add: run_ops_def)
next
  case (Cons op ops)
  have b: "int (length (history (apply_op m op))) \<le> max_history (apply_op m op)"
    using apply_op_history_bound [OF Cons.prems] by (simp add: apply_op_max_history)
  have p: "0 < max_history (apply_op m op)"
    using Cons.prems(1) by (simp add: apply_op_max_history)
  have "int (length (history (run_ops (apply_op m op) ops))) \<le> max_history (apply_op m op)"
    using Cons.IH [OF p b] .
  then show ?case by (simp add: run_ops_def apply_op_max_history)
qed

text \<open>
  X1. For a cap of at least one the bound of C4 holds: every operation keeps the
  history within \<open>max_history\<close>, so its length is at most the cap after any sequence of
  operations on a fresh manager.
\<close>

theorem history_within_positive_cap:
  assumes "0 < H"
  shows "int (length (history (run_ops (init_manager N H) ops))) \<le> H"
proof -
  have "int (length (history (run_ops (init_manager N H) ops)))
        \<le> max_history (init_manager N H)"
    by (rule run_ops_history_bound) (use assms in \<open>simp_all add: init_manager_def\<close>)
  then show ?thesis by (simp add: init_manager_def)
qed

theorem history_within_positive_cap_witness:
  "(0::int) < 1
   \<and> int (length (history (run_ops (init_manager 1000 1)
        [Add sig_eurusd, Add sig_gbpusd, Take None, Size]))) \<le> 1"
proof -
  have p: "(0::int) < 1" by simp
  show ?thesis
    using history_within_positive_cap [OF p, of 1000 "[Add sig_eurusd, Add sig_gbpusd, Take None, Size]"] p
    by blast
qed

section \<open>Reading the history\<close>

text \<open>
  C5, as the claim states it, fails: after \<open>sig_eurusd\<close> and then \<open>sig_gbpusd\<close> were
  handed out, \<open>get_history\<close> returns them in that order, the older one first, which is
  not the most-recent-first sequence.
\<close>

theorem get_history_oldest_first_counterexample:
  "get_history store_taken2 None = [sig_eurusd, sig_gbpusd]
   \<and> history_most_recent_first store_taken2 None = [sig_gbpusd, sig_eurusd]
   \<and> get_history store_taken2 None \<noteq> history_most_recent_first store_taken2 None"
  by (simp add: store_taken2_eval get_history_def history_most_recent_first_def sig_distinct)

text \<open>
  C5, amended. \<open>get_history\<close> returns the entries in the order they were recorded,
  oldest first and newest last: all of them without a limit, the newest \<open>limit\<close> of them
  for a positive limit (so at most \<open>limit\<close>), and none for a limit of zero or less.
\<close>

theorem get_history_newest_last:
  "get_history m None = history m
   \<and> (\<forall>l. 0 < l \<longrightarrow>
        get_history m (Some l) = drop (length (history m) - nat l) (history m)
        \<and> length (get_history m (Some l)) = min (nat l) (length (history m)))
   \<and> (\<forall>l. l \<le> 0 \<longrightarrow> get_history m (Some l) = [])"
proof -
  have "slice_index (history m) (- l) = length (history m) - nat l" if "0 < l" for l
    using that by (simp add: slice_index_def nat_diff_distrib')
  then show ?thesis
    by (auto simp: get_history_def slice_from_def)
qed

theorem get_history_newest_last_witness:
  "get_history store_taken2 (Some 1) =
     drop (length (history store_taken2) - nat 1) (history store_taken2)
   \<and> length (get_history store_taken2 (Some 1)) = min (nat 1) (length (history store_taken2))
   \<and> get_history store_taken2 (Some (- 3)) = []"
proof -
  have p: "(0::int) < 1" and n: "(- 3 :: int) \<le> 0" by simp_all
  show ?thesis
    using get_history_newest_last [of store_taken2] p n by blast
qed

section \<open>The dedup set\<close>

lemma add_signal_processed_mono:
  "processed_signals m \<subseteq> processed_signals (snd (add_signal m s))"
  using validate_cases [of s] by (auto simp: add_signal_def)

lemma apply_op_processed_mono:
  "processed_signals m \<subseteq> processed_signals (apply_op m op)"
  using add_signal_processed_mono
  by (cases op) (auto simp: get_signals_frame clear_queue_def)

lemma run_ops_processed_mono:
  "processed_signals m \<subseteq> processed_signals (run_ops m ops)"
proof (induction ops arbitrary: m)
  case Nil
  then show ?case by (simp add: run_ops_def)
next
  case (Cons op ops)
  have "processed_signals m \<subseteq> processed_signals (apply_op m op)"
    by (rule apply_op_processed_mono)
  also have "\<dots> \<subseteq> processed_signals (run_ops (apply_op m op) ops)"
    by (rule Cons.IH)
  finally show ?case by (simp add: run_ops_def)
qed

lemma add_signal_seen_rejected:
  "signal_id s \<in> processed_signals m \<Longrightarrow>
     \<not> fst (fst (add_signal m s)) \<and> snd (add_signal m s) = m"
  using validate_cases [of s] by (auto simp: add_signal_def)

text \<open>
  C8. An id in the dedup set stays in it through every sequence of operations
  (adds, takes, clears and the read-only ones), and after any such sequence an add of
  a signal with that id is refused and changes nothing, so the signal does not enter
  the queue again.
\<close>

theorem dedup_id_never_readmitted:
  assumes "i \<in> processed_signals m"
  shows "i \<in> processed_signals (run_ops m ops)
       \<and> (signal_id s = i \<longrightarrow>
            \<not> fst (fst (add_signal (run_ops m ops) s))
            \<and> snd (add_signal (run_ops m ops) s) = run_ops m ops)"
proof -
  have "i \<in> processed_signals (run_ops m ops)"
    using assms run_ops_processed_mono by blast
  then show ?thesis
    using add_signal_seen_rejected by blast
qed

theorem dedup_id_never_readmitted_witness:
  "signal_id sig_eurusd \<in> processed_signals (snd (add_signal (init_manager 1000 10000) sig_eurusd))
   \<and> signal_id sig_eurusd \<in> processed_signals
        (run_ops (snd (add_signal (init_manager 1000 10000) sig_eurusd)) [Take None, Clear])
   \<and> \<not> fst (fst (add_signal
        (run_ops (snd (add_signal (init_manager 1000 10000) sig_eurusd)) [Take None, Clear])
        sig_eurusd))
   \<and> snd (add_signal
        (run_ops (snd (add_signal (init_manager 1000 10000) sig_eurusd)) [Take None, Clear])
        sig_eurusd) =
      run_ops (snd (add_signal (init_manager 1000 10000) sig_eurusd)) [Take None, Clear]"
proof -
  have seen: "signal_id sig_eurusd
      \<in> processed_signals (snd (add_signal (init_manager 1000 10000) sig_eurusd))"
    by (simp add: add_signal_def validate_sig_eurusd init_manager_def)
  show ?thesis
    using dedup_id_never_readmitted [OF seen, of "[Take None, Clear]" sig_eurusd] seen
    by blast
qed

section \<open>Requests and the last contact\<close>

lemma bridge_one_pending_eval:
  "bridge_one_pending =
     (init_bridge 5555 ''127.0.0.1'')
       \<lparr>signal_manager :=
          \<lparr>queue = [sig_eurusd], history = [], max_queue_size = 1000, max_history = 10000,
           processed_signals = {signal_id sig_eurusd}\<rparr>\<rparr>"
  by (simp add: bridge_one_pending_def send_signal_def add_signal_def validate_sig_eurusd
      init_bridge_def init_manager_def)

lemma request_action_examples:
  "request_action [(''action'', JStr ''GET_SIGNALS'')] = Inr ''GET_SIGNALS''"
  "request_action [(''action'', JStr ''get_bridge_status'')] = Inr ''GET_BRIDGE_STATUS''"
  "request_action [(''action'', JStr ''heartbeat'')] = Inr ''HEARTBEAT''"
  "request_action [(''action'', JStr ''Send_Status''), (''status'', JStr ''ok'')] =
     Inr ''SEND_STATUS''"
  by (simp_all add: request_action_def dict_get_def upper_def upper_char_def)

lemma process_request_contact:
  assumes "request_action request = Inr act" and "act = ''SEND_STATUS'' \<or> act = ''HEARTBEAT''"
  shows "\<exists>resp. process_request isoformat now now2 b request =
           Inr (resp, b\<lparr>last_heartbeat := Some now, connection_status := ''connected''\<rparr>)"
  using assms by (auto simp: process_request_def bind_err_def)

lemma process_request_no_contact:
  assumes "request_action request = Inr act" and "act \<noteq> ''SEND_STATUS''"
    and "act \<noteq> ''HEARTBEAT''"
    and "process_request isoformat now now2 b request = Inr (resp, b')"
  shows "last_heartbeat b' = last_heartbeat b \<and> connection_status b' = connection_status b"
  using assms
  by (auto simp: process_request_def bind_err_def split: if_splits sum.splits prod.splits)

text \<open>
  C6, as the claim states it, fails: a \<open>GET_SIGNALS\<close> request that hands out the pending
  signal (and counts it in \<open>signals_sent\<close>) and a \<open>GET_BRIDGE_STATUS\<close> request both leave
  the last contact unset on a bridge that has never been contacted.
\<close>

theorem get_signals_request_keeps_last_contact_counterexample:
  "last_heartbeat bridge_one_pending = None
   \<and> map_option last_heartbeat
       (bridge_after (process_request example_isoformat (DT 1700000010000000)
          (DT 1700000010000001) bridge_one_pending [(''action'', JStr ''GET_SIGNALS'')])) =
       Some None
   \<and> map_option (signals_sent \<circ> stats)
       (bridge_after (process_request example_isoformat (DT 1700000010000000)
          (DT 1700000010000001) bridge_one_pending [(''action'', JStr ''GET_SIGNALS'')])) =
       Some 1
   \<and> map_option last_heartbeat
       (bridge_after (process_request example_isoformat (DT 1700000010000000)
          (DT 1700000010000001) bridge_one_pending
          [(''action'', JStr ''get_bridge_status'')])) =
       Some None"
  by (simp add: process_request_def request_action_examples bind_err_def request_count_def
      dict_get_def bridge_after_def bridge_one_pending_eval init_bridge_def get_signals_def
      trim_history_def)

text \<open>
  C6, amended. Of the requests the bridge handles, \<open>SEND_STATUS\<close> and \<open>HEARTBEAT\<close> set
  the last contact to the time of the request and the status to connected; every other
  handled request, \<open>GET_SIGNALS\<close>, \<open>GET_BRIDGE_STATUS\<close> and unknown actions included, leaves
  the last contact and the connection status as they were (\<open>GET_BRIDGE_STATUS\<close> leaves
  the whole bridge as it was).
\<close>

theorem last_contact_set_by_status_and_heartbeat_only:
  assumes "request_action request = Inr act"
  shows "(act = ''SEND_STATUS'' \<or> act = ''HEARTBEAT'' \<longrightarrow>
           (\<exists>resp b'. process_request isoformat now now2 b request = Inr (resp, b')
              \<and> last_heartbeat b' = Some now \<and> connection_status b' = ''connected''))
       \<and> (act \<noteq> ''SEND_STATUS'' \<and> act \<noteq> ''HEARTBEAT'' \<longrightarrow>
           (\<forall>resp b'. process_request isoformat now now2 b request = Inr (resp, b') \<longrightarrow>
              last_heartbeat b' = last_heartbeat b
              \<and> connection_status b' = connection_status b))
       \<and> (act = ''GET_SIGNALS'' \<longrightarrow>
           (\<forall>count. request_count request = Inr count \<longrightarrow>
              (\<exists>resp b'. process_request isoformat now now2 b request = Inr (resp, b')
                 \<and> last_heartbeat b' = last_heartbeat b
                 \<and> signal_manager b' = snd (get_signals (signal_manager b) count))))
       \<and> (act = ''GET_BRIDGE_STATUS'' \<longrightarrow>
           (\<exists>resp. process_request isoformat now now2 b request = Inr (resp, b)))"
proof -
  have a: "act = ''SEND_STATUS'' \<or> act = ''HEARTBEAT'' \<longrightarrow>
           (\<exists>resp b'. process_request isoformat now now2 b request = Inr (resp, b')
              \<and> last_heartbeat b' = Some now \<and> connection_status b' = ''connected'')"
  proof
    assume h: "act = ''SEND_STATUS'' \<or> act = ''HEARTBEAT''"
    obtain resp where "process_request isoformat now now2 b request =
        Inr (resp, b\<lparr>last_heartbeat := Some now, connection_status := ''connected''\<rparr>)"
      using process_request_contact [OF assms h] by blast
    then show "\<exists>resp b'. process_request isoformat now now2 b request = Inr (resp, b')
              \<and> last_heartbeat b' = Some now \<and> connection_status b' = ''connected''"
      by simp
  qed
  have c: "act \<noteq> ''SEND_STATUS'' \<and> act \<noteq> ''HEARTBEAT'' \<longrightarrow>
           (\<forall>resp b'. process_request isoformat now now2 b request = Inr (resp, b') \<longrightarrow>
              last_heartbeat b' = last_heartbeat b
              \<and> connection_status b' = connection_status b)"
    using process_request_no_contact [OF assms] by blast
  have d: "act = ''GET_SIGNALS'' \<longrightarrow>
           (\<forall>count. request_count request = Inr count \<longrightarrow>
              (\<exists>resp b'. process_request isoformat now now2 b request = Inr (resp, b')
                 \<and> last_heartbeat b' = last_heartbeat b
                 \<and> signal_manager b' = snd (get_signals (signal_manager b) count)))"
    using assms by (auto simp: process_request_def bind_err_def split: prod.splits)
  have e: "act = ''GET_BRIDGE_STATUS'' \<longrightarrow>
           (\<exists>resp. process_request isoformat now now2 b request = Inr (resp, b))"
    using assms by (auto simp: process_request_def bind_err_def)
  from a c d e show ?thesis by blast
qed

theorem last_contact_set_by_status_and_heartbeat_only_witness:
  "(\<exists>resp b'. process_request example_isoformat (DT 1700000010000000) (DT 1700000010000001)
        bridge_one_pending [(''action'', JStr ''heartbeat'')] = Inr (resp, b')
      \<and> last_heartbeat b' = Some (DT 1700000010000000) \<and> connection_status b' = ''connected'')
   \<and> (\<exists>resp b'. process_request example_isoformat (DT 1700000010000000) (DT 1700000010000001)
        bridge_one_pending [(''action'', JStr ''GET_SIGNALS'')] = Inr (resp, b')
      \<and> last_heartbeat b' = last_heartbeat bridge_one_pending
      \<and> connection_status b' = connection_status bridge_one_pending
      \<and> signal_manager b' = snd (get_signals (signal_manager bridge_one_pending) None))
   \<and> (\<exists>resp. process_request example_isoformat (DT 1700000010000000) (DT 1700000010000001)
        bridge_one_pending [(''action'', JStr ''get_bridge_status'')] =
        Inr (resp, bridge_one_pending))"
proof -
  let ?pr = "process_request example_isoformat (DT 1700000010000000) (DT 1700000010000001)
               bridge_one_pending"
  have c: "request_count [(''action'', JStr ''GET_SIGNALS'')] = Inr None"
    by (simp add: request_count_def dict_get_def)
  note hb = last_contact_set_by_status_and_heartbeat_only [OF request_action_examples(3),
        of example_isoformat "DT 1700000010000000" "DT 1700000010000001" bridge_one_pending]
  note gs = last_contact_set_by_status_and_heartbeat_only [OF request_action_examples(1),
        of example_isoformat "DT 1700000010000000" "DT 1700000010000001" bridge_one_pending]
  note st = last_contact_set_by_status_and_heartbeat_only [OF request_action_examples(2),
        of example_isoformat "DT 1700000010000000" "DT 1700000010000001" bridge_one_pending]
  have w1: "\<exists>resp b'. ?pr [(''action'', JStr ''heartbeat'')] = Inr (resp, b')
      \<and> last_heartbeat b' = Some (DT 1700000010000000) \<and> connection_status b' = ''connected''"
    using hb by simp
  obtain resp b' where g: "?pr [(''action'', JStr ''GET_SIGNALS'')] = Inr (resp, b')"
      "last_heartbeat b' = last_heartbeat bridge_one_pending"
      "signal_manager b' = snd (get_signals (signal_manager bridge_one_pending) None)"
    using gs c by auto
  have "connection_status b' = connection_status bridge_one_pending"
    using gs g(1) by simp
  then have w2: "\<exists>resp b'. ?pr [(''action'', JStr ''GET_SIGNALS'')] = Inr (resp, b')
      \<and> last_heartbeat b' = last_heartbeat bridge_one_pending
      \<and> connection_status b' = connection_status bridge_one_pending
      \<and> signal_manager b' = snd (get_signals (signal_manager bridge_one_pending) None)"
    using g by blast
  have w3: "\<exists>resp. ?pr [(''action'', JStr ''get_bridge_status'')] =
        Inr (resp, bridge_one_pending)"
    using st by simp
  from w1 w2 w3 show ?thesis by blast
qed

section \<open>The heartbeat monitor\<close>

lemma monitor_poll_stale:
  assumes "last_heartbeat b = Some lh"
    and "total_seconds now lh > real_of_int (heartbeat_timeout b)"
  shows "monitor_poll now b =
           (b\<lparr>connection_status := ''disconnected''\<rparr>,
            [Warning_connection_lost (total_seconds now lh)])"
  using assms by (simp add: monitor_poll_def)

lemma monitor_poll_fresh:
  assumes "last_heartbeat b = Some lh"
    and "\<not> total_seconds now lh > real_of_int (heartbeat_timeout b)"
  shows "monitor_poll now b = (b, [])"
  using assms by (simp add: monitor_poll_def)

lemma monitor_heartbeat_silent:
  assumes "running b" and "last_heartbeat b = Some lh"
    and "\<forall>now \<in> set wakes. total_seconds now lh > real_of_int (heartbeat_timeout b)"
  shows "monitor_heartbeat wakes b =
           (if wakes = [] then b else b\<lparr>connection_status := ''disconnected''\<rparr>,
            map (\<lambda>now. Warning_connection_lost (total_seconds now lh)) wakes)"
  using assms
proof (induction wakes arbitrary: b)
  case Nil
  then show ?case by simp
next
  case (Cons now wakes)
  let ?b1 = "b\<lparr>connection_status := ''disconnected''\<rparr>"
  have p: "monitor_poll now b = (?b1, [Warning_connection_lost (total_seconds now lh)])"
    using Cons.prems by (simp add: monitor_poll_stale)
  have r: "monitor_heartbeat wakes ?b1 =
           (if wakes = [] then ?b1 else ?b1\<lparr>connection_status := ''disconnected''\<rparr>,
            map (\<lambda>now. Warning_connection_lost (total_seconds now lh)) wakes)"
    by (rule Cons.IH) (use Cons.prems in simp_all)
  show ?case
    using Cons.prems(1) by (simp add: p r)
qed

lemma bridge_silent_fields:
  "running bridge_silent" "last_heartbeat bridge_silent = Some (DT 0)"
  "heartbeat_timeout bridge_silent = 30" "connection_status bridge_silent = ''connected''"
  by (simp_all add: bridge_silent_def init_bridge_def)

text \<open>
  C7, as the claim states it, fails: the peer of \<open>bridge_silent\<close> was last heard at time
  0; the monitor's wake-ups at 31, 36 and 41 seconds each log the warning, also the
  second and third, at which the status is already disconnected.
\<close>

theorem monitor_warns_at_every_poll_counterexample:
  "monitor_heartbeat [DT 31000000, DT 36000000, DT 41000000] bridge_silent =
     (bridge_silent\<lparr>connection_status := ''disconnected''\<rparr>,
      [Warning_connection_lost 31, Warning_connection_lost 36, Warning_connection_lost 41])
   \<and> connection_status (fst (monitor_poll (DT 31000000) bridge_silent)) = ''disconnected''
   \<and> snd (monitor_poll (DT 36000000) (fst (monitor_poll (DT 31000000) bridge_silent))) =
       [Warning_connection_lost 36]"
  by (simp add: monitor_poll_def bridge_silent_fields total_seconds_def)

lemma monitor_poll_never_contacted:
  "last_heartbeat b = None \<Longrightarrow> monitor_poll now b = (b, [])"
  by (simp add: monitor_poll_def)

lemma monitor_heartbeat_never_contacted:
  "last_heartbeat b = None \<Longrightarrow> monitor_heartbeat wakes b = (b, [])"
  by (induction wakes) (simp_all add: monitor_poll_never_contacted)

lemma monitor_heartbeat_stopped:
  "\<not> running b \<Longrightarrow> monitor_heartbeat wakes b = (b, [])"
  by (cases wakes) simp_all

text \<open>
  C7, amended. The monitor is level-triggered. At a poll at which the last contact is
  set and more than \<open>heartbeat_timeout\<close> seconds old, it sets the status to disconnected
  and logs the warning, whatever the status was; at a poll at which the last contact
  is not set, or is set and within the timeout, it changes nothing and logs nothing.
  So a bridge that was never contacted is never degraded, and while a peer that was
  heard stays silent the warning is logged at every poll (the status assignment
  repeats without effect). A \<open>SEND_STATUS\<close> or \<open>HEARTBEAT\<close> request then sets the status
  of any bridge to connected and the last contact to its time.
\<close>

theorem monitor_level_triggered:
  "(last_heartbeat b = None \<longrightarrow>
      monitor_poll now b = (b, []) \<and> monitor_heartbeat wakes b = (b, []))
   \<and> (last_heartbeat b = Some lh
        \<and> total_seconds now lh > real_of_int (heartbeat_timeout b) \<longrightarrow>
      monitor_poll now b =
        (b\<lparr>connection_status := ''disconnected''\<rparr>,
         [Warning_connection_lost (total_seconds now lh)]))
   \<and> (last_heartbeat b = Some lh
        \<and> \<not> total_seconds now lh > real_of_int (heartbeat_timeout b) \<longrightarrow>
      monitor_poll now b = (b, []))
   \<and> (last_heartbeat b = Some lh \<and> running b
        \<and> (\<forall>t \<in> set wakes. total_seconds t lh > real_of_int (heartbeat_timeout b)) \<longrightarrow>
      snd (monitor_heartbeat wakes b) =
        map (\<lambda>t. Warning_connection_lost (total_seconds t lh)) wakes
      \<and> (wakes \<noteq> [] \<longrightarrow>
           fst (monitor_heartbeat wakes b) = b\<lparr>connection_status := ''disconnected''\<rparr>))
   \<and> (\<not> running b \<longrightarrow> monitor_heartbeat wakes b = (b, []))
   \<and> (request_action request = Inr act \<and> (act = ''SEND_STATUS'' \<or> act = ''HEARTBEAT'') \<longrightarrow>
        (\<exists>resp b'. process_request isoformat now now_reply bridge request = Inr (resp, b')
           \<and> connection_status b' = ''connected'' \<and> last_heartbeat b' = Some now))"
proof -
  have n: "last_heartbeat b = None \<longrightarrow>
      monitor_poll now b = (b, []) \<and> monitor_heartbeat wakes b = (b, [])"
    using monitor_poll_never_contacted monitor_heartbeat_never_contacted by blast
  have a: "last_heartbeat b = Some lh
        \<and> total_seconds now lh > real_of_int (heartbeat_timeout b) \<longrightarrow>
      monitor_poll now b =
        (b\<lparr>connection_status := ''disconnected''\<rparr>,
         [Warning_connection_lost (total_seconds now lh)])"
    using monitor_poll_stale by blast
  have c: "last_heartbeat b = Some lh
        \<and> \<not> total_seconds now lh > real_of_int (heartbeat_timeout b) \<longrightarrow>
      monitor_poll now b = (b, [])"
    using monitor_poll_fresh by blast
  have d: "last_heartbeat b = Some lh \<and> running b
        \<and> (\<forall>t \<in> set wakes. total_seconds t lh > real_of_int (heartbeat_timeout b)) \<longrightarrow>
      snd (monitor_heartbeat wakes b) =
        map (\<lambda>t. Warning_connection_lost (total_seconds t lh)) wakes
      \<and> (wakes \<noteq> [] \<longrightarrow>
           fst (monitor_heartbeat wakes b) = b\<lparr>connection_status := ''disconnected''\<rparr>)"
  proof
    assume h: "last_heartbeat b = Some lh \<and> running b
        \<and> (\<forall>t \<in> set wakes. total_seconds t lh > real_of_int (heartbeat_timeout b))"
    then have loop: "monitor_heartbeat wakes b =
           (if wakes = [] then b else b\<lparr>connection_status := ''disconnected''\<rparr>,
            map (\<lambda>now. Warning_connection_lost (total_seconds now lh)) wakes)"
      using monitor_heartbeat_silent [of b lh wakes] by blast
    show "snd (monitor_heartbeat wakes b) =
        map (\<lambda>t. Warning_connection_lost (total_seconds t lh)) wakes
      \<and> (wakes \<noteq> [] \<longrightarrow>
           fst (monitor_heartbeat wakes b) = b\<lparr>connection_status := ''disconnected''\<rparr>)"
      by (simp add: loop)
  qed
  have e: "\<not> running b \<longrightarrow> monitor_heartbeat wakes b = (b, [])"
    using monitor_heartbeat_stopped by blast
  have f: "request_action request = Inr act \<and> (act = ''SEND_STATUS'' \<or> act = ''HEARTBEAT'') \<longrightarrow>
        (\<exists>resp b'. process_request isoformat now now_reply bridge request = Inr (resp, b')
           \<and> connection_status b' = ''connected'' \<and> last_heartbeat b' = Some now)"
  proof
    assume h: "request_action request = Inr act \<and> (act = ''SEND_STATUS'' \<or> act = ''HEARTBEAT'')"
    obtain resp where "process_request isoformat now now_reply bridge request =
        Inr (resp, bridge\<lparr>last_heartbeat := Some now, connection_status := ''connected''\<rparr>)"
      using process_request_contact [of request act] h by blast
    then show "\<exists>resp b'. process_request isoformat now now_reply bridge request = Inr (resp, b')
           \<and> connection_status b' = ''connected'' \<and> last_heartbeat b' = Some now"
      by simp
  qed
  from n a c d e f show ?thesis by (intro conjI)
qed

theorem monitor_level_triggered_witness:
  "monitor_poll (DT 99000000) (init_bridge 5555 ''127.0.0.1'') =
     (init_bridge 5555 ''127.0.0.1'', [])
   \<and> monitor_heartbeat [DT 31000000, DT 36000000] (init_bridge 5555 ''127.0.0.1'') =
     (init_bridge 5555 ''127.0.0.1'', [])
   \<and> monitor_poll (DT 31000000) bridge_silent =
     (bridge_silent\<lparr>connection_status := ''disconnected''\<rparr>,
      [Warning_connection_lost (total_seconds (DT 31000000) (DT 0))])
   \<and> monitor_poll (DT 5000000) bridge_silent = (bridge_silent, [])
   \<and> snd (monitor_heartbeat [DT 31000000, DT 36000000] bridge_silent) =
       map (\<lambda>t. Warning_connection_lost (total_seconds t (DT 0))) [DT 31000000, DT 36000000]
   \<and> fst (monitor_heartbeat [DT 31000000, DT 36000000] bridge_silent) =
       bridge_silent\<lparr>connection_status := ''disconnected''\<rparr>
   \<and> (\<exists>resp b'. process_request example_isoformat (DT 50000000) (DT 50000001)
          (fst (monitor_heartbeat [DT 31000000, DT 36000000] bridge_silent))
          [(''action'', JStr ''heartbeat'')] = Inr (resp, b')
        \<and> connection_status b' = ''connected'' \<and> last_heartbeat b' = Some (DT 50000000))"
proof -
  let ?wakes = "[DT 31000000, DT 36000000]"
  let ?b0 = "init_bridge 5555 ''127.0.0.1''"
  let ?req = "[(''action'', JStr ''heartbeat'')]"
  have never: "last_heartbeat ?b0 = None"
    by (simp add: init_bridge_def)
  have stale: "last_heartbeat bridge_silent = Some (DT 0)
      \<and> total_seconds (DT 31000000) (DT 0) > real_of_int (heartbeat_timeout bridge_silent)"
    by (simp add: total_seconds_def bridge_silent_fields)
  have fresh: "last_heartbeat bridge_silent = Some (DT 0)
      \<and> \<not> total_seconds (DT 5000000) (DT 0) > real_of_int (heartbeat_timeout bridge_silent)"
    by (simp add: total_seconds_def bridge_silent_fields)
  have silent: "last_heartbeat bridge_silent = Some (DT 0) \<and> running bridge_silent
      \<and> (\<forall>t \<in> set ?wakes.
            total_seconds t (DT 0) > real_of_int (heartbeat_timeout bridge_silent))"
    by (simp add: total_seconds_def bridge_silent_fields)
  have ne: "?wakes \<noteq> []" by simp
  have hb: "request_action ?req = Inr ''HEARTBEAT''
      \<and> (''HEARTBEAT'' = ''SEND_STATUS'' \<or> ''HEARTBEAT'' = ''HEARTBEAT'')"
    by (simp add: request_action_examples)
  note t0 = monitor_level_triggered [where b = ?b0 and now = "DT 99000000" and wakes = ?wakes]
  note t1 = monitor_level_triggered [where b = bridge_silent and now = "DT 31000000"
      and lh = "DT 0" and wakes = ?wakes]
  note t2 = monitor_level_triggered [where b = bridge_silent and now = "DT 5000000"
      and lh = "DT 0"]
  note t3 = monitor_level_triggered [where now = "DT 50000000" and request = ?req
      and act = "''HEARTBEAT''" and isoformat = example_isoformat and now_reply = "DT 50000001"
      and bridge = "fst (monitor_heartbeat ?wakes bridge_silent)"]
  have w0: "monitor_poll (DT 99000000) ?b0 = (?b0, [])
      \<and> monitor_heartbeat ?wakes ?b0 = (?b0, [])"
    using t0 [THEN conjunct1] never by (rule mp)
  have w1: "monitor_poll (DT 31000000) bridge_silent =
     (bridge_silent\<lparr>connection_status := ''disconnected''\<rparr>,
      [Warning_connection_lost (total_seconds (DT 31000000) (DT 0))])"
    using t1 [THEN conjunct2, THEN conjunct1] stale by (rule mp)
  have w2: "monitor_poll (DT 5000000) bridge_silent = (bridge_silent, [])"
    using t2 [THEN conjunct2, THEN conjunct2, THEN conjunct1] fresh by (rule mp)
  have w34: "snd (monitor_heartbeat ?wakes bridge_silent) =
       map (\<lambda>t. Warning_connection_lost (total_seconds t (DT 0))) ?wakes
     \<and> (?wakes \<noteq> [] \<longrightarrow> fst (monitor_heartbeat ?wakes bridge_silent) =
       bridge_silent\<lparr>connection_status := ''disconnected''\<rparr>)"
    using t1 [THEN conjunct2, THEN conjunct2, THEN conjunct2, THEN conjunct1] silent
    by (rule mp)
  have w4: "fst (monitor_heartbeat ?wakes bridge_silent) =
       bridge_silent\<lparr>connection_status := ''disconnected''\<rparr>"
    using w34 [THEN conjunct2] ne by (rule mp)
  have w5: "\<exists>resp b'. process_request example_isoformat (DT 50000000) (DT 50000001)
          (fst (monitor_heartbeat ?wakes bridge_silent)) ?req = Inr (resp, b')
        \<and> connection_status b' = ''connected'' \<and> last_heartbeat b' = Some (DT 50000000)"
    using t3 [THEN conjunct2, THEN conjunct2, THEN conjunct2, THEN conjunct2, THEN conjunct2]
      hb
    by (rule mp)
  from w0 [THEN conjunct1] w0 [THEN conjunct2] w1 w2 w34 [THEN conjunct1] w4 w5
  show ?thesis by (intro conjI)
qed

section \<open>Serialisation\<close>

text \<open>
  A constructed signal has a timestamp and an id: \<open>__post_init__\<close> sets both, and
  leaves a signal that has them as it is.
\<close>

lemma post_init_sets:
  "timestamp (post_init posix_seconds now s) \<noteq> None
   \<and> signal_id (post_init posix_seconds now s) \<noteq> None"
  by (simp add: post_init_def Let_def)

lemma post_init_constructed:
  "timestamp s = Some t \<Longrightarrow> signal_id s = Some i \<Longrightarrow> post_init posix_seconds now s = s"
  by (simp add: post_init_def)

lemma post_init_derives_id:
  "post_init example_posix_seconds now (sig_eurusd\<lparr>signal_id := None\<rparr>) = sig_eurusd"
  by (simp add: post_init_def sig_eurusd_def str_int_def example_posix_seconds_def)

lemma from_dict_to_dict:
  assumes "timestamp s = Some t" and "signal_id s = Some i"
    and "fromisoformat (isoformat t) = Some t'"
  shows "from_dict fromisoformat posix_seconds now (to_dict isoformat s) =
           Inr (s\<lparr>timestamp := Some t'\<rparr>)"
proof -
  have keys: "map fst (to_dict isoformat s) = field_names"
    by (simp add: to_dict_def field_names_def)
  have req: "set required_fields \<subseteq> set field_names"
    by (simp add: required_fields_def field_names_def)
  have sl: "get_opt_float ''stop_loss'' (opt_jfloat (stop_loss s)) = Inr (stop_loss s)"
    by (cases "stop_loss s") (simp_all add: get_opt_float_def opt_jfloat_def)
  have tp: "get_opt_float ''take_profit'' (opt_jfloat (take_profit s)) = Inr (take_profit s)"
    by (cases "take_profit s") (simp_all add: get_opt_float_def opt_jfloat_def)
  have look:
    "dict_get (to_dict isoformat s) ''symbol'' JNull = JStr (symbol s)"
    "dict_get (to_dict isoformat s) ''action'' JNull = JStr (action s)"
    "dict_get (to_dict isoformat s) ''broker'' JNull = JStr (broker s)"
    "dict_get (to_dict isoformat s) ''lot_size'' JNull = JFloat (lot_size s)"
    "dict_get (to_dict isoformat s) ''stop_loss'' JNull = opt_jfloat (stop_loss s)"
    "dict_get (to_dict isoformat s) ''take_profit'' JNull = opt_jfloat (take_profit s)"
    "dict_get (to_dict isoformat s) ''comment'' (JStr []) = JStr (comment s)"
    "dict_get (to_dict isoformat s) ''timestamp'' JNull = JStr (isoformat t)"
    "dict_get (to_dict isoformat s) ''signal_id'' JNull = JStr i"
    "map_of (to_dict isoformat s) ''timestamp'' = Some (JStr (isoformat t))"
    using assms(1,2) by (simp_all add: dict_get_def to_dict_def opt_jstr_def)
  have rec: "\<lparr>symbol = symbol s, action = action s, broker = broker s, lot_size = lot_size s,
       stop_loss = stop_loss s, take_profit = take_profit s, comment = comment s,
       timestamp = Some t', signal_id = Some i\<rparr> = s\<lparr>timestamp := Some t'\<rparr>"
    using assms(2) by (cases s) simp
  show ?thesis
    unfolding from_dict_def keys
    using req
    by (simp add: look assms(3) bind_err_def get_str_def get_float_def get_opt_str_def sl tp
        post_init_def rec)
qed

text \<open>
  C9. For every constructed signal (validity is not needed), \<open>from_dict\<close> of \<open>to_dict\<close>
  is the signal itself in every field but the timestamp, which is what
  \<open>fromisoformat\<close> reads back from its ISO text; where that is the timestamp itself, as
  for the standard library's pair, the signal comes back unchanged. The same holds for
  \<open>from_json\<close> of \<open>to_json\<close> whenever \<open>json.loads\<close> reads the dictionary back from the
  text that \<open>json.dumps\<close> wrote.
\<close>

theorem signal_round_trip:
  assumes "timestamp s = Some t" and "signal_id s = Some i"
    and "fromisoformat (isoformat t) = Some t'"
  shows "from_dict fromisoformat posix_seconds now (to_dict isoformat s) =
           Inr (s\<lparr>timestamp := Some t'\<rparr>)
       \<and> (t' = t \<longrightarrow>
            from_dict fromisoformat posix_seconds now (to_dict isoformat s) = Inr s)
       \<and> (loads (dumps (JDict (to_dict isoformat s))) = Some (JDict (to_dict isoformat s)) \<longrightarrow>
            from_json loads fromisoformat posix_seconds now (to_json dumps isoformat s) =
              Inr (s\<lparr>timestamp := Some t'\<rparr>))"
proof -
  note d = from_dict_to_dict [where fromisoformat = fromisoformat and isoformat = isoformat
      and now = now and posix_seconds = posix_seconds, OF assms]
  have same: "t' = t \<Longrightarrow> s\<lparr>timestamp := Some t'\<rparr> = s"
    using assms(1) by simp
  have j: "loads (dumps (JDict (to_dict isoformat s))) = Some (JDict (to_dict isoformat s)) \<longrightarrow>
            from_json loads fromisoformat posix_seconds now (to_json dumps isoformat s) =
              Inr (s\<lparr>timestamp := Some t'\<rparr>)"
    by (simp add: from_json_def to_json_def d)
  from d same j show ?thesis by metis
qed

lemma sig_eurusd_iso:
  "timestamp sig_eurusd = Some (DT 1700000000000000)"
  "example_fromisoformat (example_isoformat (DT 1700000000000000)) = Some (DT 1700000000000000)"
  by (simp_all add: sig_eurusd_def example_fromisoformat_def example_isoformat_def iso_table_def)

theorem signal_round_trip_witness:
  "from_dict example_fromisoformat example_posix_seconds (DT 1700000099000000)
       (to_dict example_isoformat sig_eurusd) =
     Inr sig_eurusd
   \<and> from_json example_loads example_fromisoformat example_posix_seconds (DT 1700000099000000)
        (to_json example_dumps example_isoformat sig_eurusd) = Inr sig_eurusd"
proof -
  have l: "example_loads (example_dumps (JDict (to_dict example_isoformat sig_eurusd))) =
      Some (JDict (to_dict example_isoformat sig_eurusd))"
    by (simp add: example_loads_def example_dumps_def)
  have same: "sig_eurusd\<lparr>timestamp := Some (DT 1700000000000000)\<rparr> = sig_eurusd"
    by (simp add: sig_eurusd_def)
  show ?thesis
    using signal_round_trip [where fromisoformat = example_fromisoformat
        and isoformat = example_isoformat and now = "DT 1700000099000000"
        and posix_seconds = example_posix_seconds
        and loads = example_loads and dumps = example_dumps,
        OF sig_eurusd_iso(1) sig_ids(1) sig_eurusd_iso(2)] l same
    by simp
qed

end
